theory Spec2Isabelle
  imports Main "HOL-Library.AList"
begin

section \<open>Values\<close>

text \<open>
  The values a Comfig store holds are JavaScript values.  Objects are association lists in
  insertion order (\<open>Object.keys\<close> order for the non-numeric key names the format uses);
  a well-formed object has distinct keys.  \<open>Num n\<close> is the number with the integer value
  \<open>n\<close> (exact up to \<open>2^53\<close>); \<open>Flt lit\<close> is a number that is not an integer, given by
  the decimal literal it is written as.  Strings are lists of 8-bit characters, the code
  units below 256.  The members an object or array inherits from its prototype are not
  part of the model.
\<close>

datatype jsval =
    Undefined
  | Null
  | Bool bool
  | Num int
  | Flt string
  | Str string
  | Arr "jsval list"
  | Obj "(string \<times> jsval) list"

type_synonym jsobject = "(string \<times> jsval) list"

datatype exn = TypeError | Error string

text \<open>What a store operation returns: an error object \<open>{error: msg}\<close>, a section id,
  a boolean, or nothing.\<close>

datatype ret = RetErr string | RetId nat | RetBool bool | RetUndef

definition obj_get :: "jsobject \<Rightarrow> string \<Rightarrow> jsval" where
  "obj_get ob k = (case map_of ob k of None \<Rightarrow> Undefined | Some v \<Rightarrow> v)"

definition keys :: "jsobject \<Rightarrow> string list" where
  "keys ob = map fst ob"

text \<open>\<open>!!v\<close>\<close>

fun truthy :: "jsval \<Rightarrow> bool" where
  "truthy Undefined = False"
| "truthy Null = False"
| "truthy (Bool b) = b"
| "truthy (Num n) = (n \<noteq> 0)"
| "truthy (Flt l) = True"
| "truthy (Str s) = (s \<noteq> [])"
| "truthy (Arr xs) = True"
| "truthy (Obj kvs) = True"

subsection \<open>Strings and numbers\<close>

text \<open>\<open>str.split(c)\<close> for a one-character separator.\<close>

fun split_on :: "char \<Rightarrow> string \<Rightarrow> string list" where
  "split_on c [] = [[]]"
| "split_on c (x # xs) =
     (if x = c then [] # split_on c xs
      else (case split_on c xs of [] \<Rightarrow> [[x]] | w # ws \<Rightarrow> (x # w) # ws))"

text \<open>\<open>lines.join(sep)\<close>\<close>

fun join :: "string \<Rightarrow> string list \<Rightarrow> string" where
  "join sep [] = []"
| "join sep [l] = l"
| "join sep (l # m # ls) = l @ sep @ join sep (m # ls)"

definition is_digit :: "char \<Rightarrow> bool" where
  "is_digit c = (c \<in> set ''0123456789'')"

definition digit_char :: "nat \<Rightarrow> char" where
  "digit_char d = ''0123456789'' ! d"

definition digit_val :: "char \<Rightarrow> nat" where
  "digit_val c = of_char c - 48"

function show_nat :: "nat \<Rightarrow> string" where
  "show_nat n = (if n < 10 then [digit_char n] else show_nat (n div 10) @ [digit_char (n mod 10)])"
  by pat_completeness auto
termination
  by (relation "measure id") auto

declare show_nat.simps [simp del]

definition show_int :: "int \<Rightarrow> string" where
  "show_int i = (if i < 0 then CHR ''-'' # show_nat (nat (- i)) else show_nat (nat i))"

definition parse_nat :: "string \<Rightarrow> nat" where
  "parse_nat s = foldl (\<lambda>a c. 10 * a + digit_val c) 0 s"

text \<open>An array index as a property name: \<open>0\<close>, or digits with no leading zero.\<close>

definition array_index :: "string \<Rightarrow> nat option" where
  "array_index s =
     (if s \<noteq> [] \<and> list_all is_digit s \<and> (s = ''0'' \<or> hd s \<noteq> CHR ''0'')
      then Some (parse_nat s) else None)"

text \<open>\<open>container[subkey]\<close>: reading a property of \<open>undefined\<close> or \<open>null\<close> throws.\<close>

fun get_prop :: "jsval \<Rightarrow> string \<Rightarrow> exn + jsval" where
  "get_prop Undefined sk = Inl TypeError"
| "get_prop Null sk = Inl TypeError"
| "get_prop (Obj kvs) sk = Inr (obj_get kvs sk)"
| "get_prop (Arr xs) sk =
     (case array_index sk of
        Some i \<Rightarrow> Inr (if i < length xs then xs ! i else Undefined)
      | None \<Rightarrow> Inr (if sk = ''length'' then Num (int (length xs)) else Undefined))"
| "get_prop (Str s) sk =
     (case array_index sk of
        Some i \<Rightarrow> Inr (if i < length s then Str [s ! i] else Undefined)
      | None \<Rightarrow> Inr (if sk = ''length'' then Num (int (length s)) else Undefined))"
| "get_prop v sk = Inr Undefined"

text \<open>\<open>container[subkey] = value\<close> in strict mode: a property can be created on an object
  or an array only.  Writing past the end of an array leaves holes, which read as
  \<open>undefined\<close>; a named property of an array is not one of its elements.\<close>

fun set_prop :: "jsval \<Rightarrow> string \<Rightarrow> jsval \<Rightarrow> exn + jsval" where
  "set_prop (Obj kvs) sk v = Inr (Obj (AList.update sk v kvs))"
| "set_prop (Arr xs) sk v =
     (case array_index sk of
        Some i \<Rightarrow>
          Inr (Arr (if i < length xs then xs[i := v]
                    else xs @ replicate (i - length xs) Undefined @ [v]))
      | None \<Rightarrow> Inr (Arr xs))"
| "set_prop c sk v = Inl TypeError"

section \<open>The store\<close>

record entry =
  comment :: string
  data :: jsobject

record opts =
  opt_comment :: string
  opt_assign :: string
  opt_indent :: string

record store =
  tree :: "entry list"
  index :: "(string \<times> nat) list"
  sopts :: opts

text \<open>The options of a store made without options, but for the marker of new comments:
  the default marker is not an 8-bit character, and \<open>#\<close> stands in for it.\<close>

definition default_opts :: opts where
  "default_opts = \<lparr>opt_comment = ''#'', opt_assign = '': '', opt_indent = [CHR 0x09]\<rparr>"

text \<open>\<open>clear()\<close>\<close>

definition clear :: "store \<Rightarrow> store" where
  "clear s = s\<lparr>tree := [], index := []\<rparr>"

text \<open>\<open>this.tree[idx]\<close>, which is \<open>undefined\<close> out of range.\<close>

definition tree_at :: "entry list \<Rightarrow> nat \<Rightarrow> entry option" where
  "tree_at t i = (if i < length t then Some (t ! i) else None)"

text \<open>\<open>const [key, subkey] = dotKey.split('.')\<close>\<close>

definition split_dotkey :: "string \<Rightarrow> string \<times> string option" where
  "split_dotkey dotKey =
     (case split_on CHR ''.'' dotKey of
        [] \<Rightarrow> ([], None)
      | [k] \<Rightarrow> (k, None)
      | k # sk # _ \<Rightarrow> (k, Some sk))"

text \<open>\<open>if(subkey)\<close>: a missing or empty subkey is falsy.\<close>

fun has_subkey :: "string option \<Rightarrow> bool" where
  "has_subkey None = False"
| "has_subkey (Some sk) = (sk \<noteq> [])"

definition get :: "store \<Rightarrow> string \<Rightarrow> jsval \<Rightarrow> exn + jsval" where
  "get s dotKey dflt =
     (case split_dotkey dotKey of (key, subkey) \<Rightarrow>
        (case map_of (index s) key of
           None \<Rightarrow> Inr dflt
         | Some idx \<Rightarrow>
             (case tree_at (tree s) idx of
                None \<Rightarrow> Inl TypeError
              | Some sec \<Rightarrow>
                  if has_subkey subkey then
                    (case get_prop (obj_get (data sec) key) (the subkey) of
                       Inl e \<Rightarrow> Inl e
                     | Inr v \<Rightarrow> Inr (if v \<noteq> Undefined then v else dflt))
                  else Inr (obj_get (data sec) key))))"

text \<open>\<open>getKeys()\<close>\<close>

definition getKeys :: "store \<Rightarrow> string list" where
  "getKeys s = concat (map (\<lambda>entry. keys (data entry)) (tree s))"

text \<open>\<open>hasKey(dotKey)\<close> is \<open>!!this.get(dotKey)\<close>.\<close>

definition hasKey :: "store \<Rightarrow> string \<Rightarrow> exn + bool" where
  "hasKey s dotKey =
     (case get s dotKey Undefined of Inl e \<Rightarrow> Inl e | Inr v \<Rightarrow> Inr (truthy v))"

definition getSectionId :: "store \<Rightarrow> string \<Rightarrow> nat option" where
  "getSectionId s key = map_of (index s) key"

text \<open>\<open>_validateSubkeyValue(value)\<close>: the error object, or nothing.\<close>

definition invalid_subvalue :: "jsval \<Rightarrow> bool" where
  "invalid_subvalue v =
     (case v of
        Arr xs \<Rightarrow> True
      | Obj kvs \<Rightarrow> True
      | Str s \<Rightarrow> CHR 0x0A \<in> set s
      | _ \<Rightarrow> False)"

definition validateSubkeyValue :: "jsval \<Rightarrow> string option" where
  "validateSubkeyValue v =
     (if invalid_subvalue v
      then Some ''invalid object value, deep objects, arrays and multiline strings are not allowed''
      else None)"

text \<open>\<open>_formatComment(comment)\<close> for a string, or for no comment at all.\<close>

definition formatComment :: "opts \<Rightarrow> string option \<Rightarrow> string" where
  "formatComment ops c =
     (case c of
        None \<Rightarrow> []
      | Some txt \<Rightarrow>
          if txt = [] then []
          else join [CHR 0x0A] (map (\<lambda>line. opt_comment ops @ '' '' @ line) (split_on CHR 0x0A txt))
               @ [CHR 0x0A])"

text \<open>\<open>_rebuildIndex()\<close>\<close>

definition index_section :: "nat \<Rightarrow> string list \<Rightarrow> (string \<times> nat) list \<Rightarrow> (string \<times> nat) list" where
  "index_section idx ks ix = fold (\<lambda>key ix'. AList.update key idx ix') ks ix"

fun rebuild_from :: "nat \<Rightarrow> entry list \<Rightarrow> (string \<times> nat) list \<Rightarrow> (string \<times> nat) list" where
  "rebuild_from idx [] ix = ix"
| "rebuild_from idx (sec # rest) ix = rebuild_from (Suc idx) rest (index_section idx (keys (data sec)) ix)"

definition rebuildIndex :: "store \<Rightarrow> store" where
  "rebuildIndex s = s\<lparr>index := rebuild_from 0 (tree s) []\<rparr>"

record set_opts =
  create :: bool
  new_comment :: "string option"

definition set' :: "store \<Rightarrow> string \<Rightarrow> jsval \<Rightarrow> set_opts \<Rightarrow> exn + (ret \<times> store)" where
  "set' s dotKey val so =
     (case split_dotkey dotKey of (key, subkey) \<Rightarrow>
        (case map_of (index s) key of
           None \<Rightarrow>
             if \<not> create so then Inr (RetErr ''config option does not exist'', s)
             else if has_subkey subkey \<and> validateSubkeyValue val \<noteq> None
             then Inr (RetErr (the (validateSubkeyValue val)), s)
             else
               (let dat = (if has_subkey subkey then [(key, Obj [(the subkey, val)])] else [(key, val)]);
                    t = tree s @ [\<lparr>comment = formatComment (sopts s) (new_comment so), data = dat\<rparr>]
                in Inr (RetId (length t - 1),
                        s\<lparr>tree := t, index := AList.update key (length t - 1) (index s)\<rparr>))
         | Some idx \<Rightarrow>
             if has_subkey subkey then
               (if validateSubkeyValue val \<noteq> None
                then Inr (RetErr (the (validateSubkeyValue val)), s)
                else
                  (case tree_at (tree s) idx of
                     None \<Rightarrow> Inl TypeError
                   | Some sec \<Rightarrow>
                       (case set_prop (obj_get (data sec) key) (the subkey) val of
                          Inl e \<Rightarrow> Inl e
                        | Inr c \<Rightarrow>
                            Inr (RetId idx,
                                 s\<lparr>tree := (tree s)[idx := sec\<lparr>data := AList.update key c (data sec)\<rparr>]\<rparr>))))
             else
               (case tree_at (tree s) idx of
                  None \<Rightarrow> Inl TypeError
                | Some sec \<Rightarrow>
                    Inr (RetId idx,
                         s\<lparr>tree := (tree s)[idx := sec\<lparr>data := AList.update key val (data sec)\<rparr>]\<rparr>))))"

text \<open>\<open>item.splice(subkey, 1)\<close>: the subkey is read as an integer (a string that is not a
  plain decimal number reads as 0), a negative one counts from the end.\<close>

definition to_integer :: "string \<Rightarrow> int" where
  "to_integer s =
     (if s \<noteq> [] \<and> list_all is_digit s then int (parse_nat s)
      else if s \<noteq> [] \<and> hd s = CHR ''-'' \<and> tl s \<noteq> [] \<and> list_all is_digit (tl s)
      then - int (parse_nat (tl s))
      else 0)"

definition splice1 :: "'a list \<Rightarrow> string \<Rightarrow> 'a list" where
  "splice1 xs sk =
     (let n = to_integer sk;
          start = (if n < 0 then nat (max (int (length xs) + n) 0) else min (nat n) (length xs))
      in take start xs @ drop (Suc start) xs)"

definition delete' :: "store \<Rightarrow> string \<Rightarrow> bool \<Rightarrow> exn + (ret \<times> store)" where
  "delete' s dotKey removeComment =
     (case split_dotkey dotKey of (key, subkey) \<Rightarrow>
        (case map_of (index s) key of
           None \<Rightarrow> Inr (RetBool False, s)
         | Some idx \<Rightarrow>
             (case tree_at (tree s) idx of
                None \<Rightarrow> Inl TypeError
              | Some sec \<Rightarrow>
                  if has_subkey subkey then
                    (case obj_get (data sec) key of
                       Arr xs \<Rightarrow>
                         Inr (RetBool True,
                              s\<lparr>tree := (tree s)[idx := sec\<lparr>data :=
                                   AList.update key (Arr (splice1 xs (the subkey))) (data sec)\<rparr>]\<rparr>)
                     | Obj kvs \<Rightarrow>
                         Inr (RetBool True,
                              s\<lparr>tree := (tree s)[idx := sec\<lparr>data :=
                                   AList.update key (Obj (AList.delete (the subkey) kvs)) (data sec)\<rparr>]\<rparr>)
                     | _ \<Rightarrow> Inr (RetErr ''not an object/array'', s))
                  else
                    (let sec' = sec\<lparr>data := AList.delete key (data sec)\<rparr>;
                         s1 = s\<lparr>tree := (tree s)[idx := sec'], index := AList.delete key (index s)\<rparr>
                     in if data sec' \<noteq> [] then Inr (RetBool True, s1)
                        else if comment sec' \<noteq> [] \<and> \<not> removeComment then Inr (RetBool True, s1)
                        else Inr (RetBool True,
                                  rebuildIndex (s1\<lparr>tree := take idx (tree s1) @ drop (Suc idx) (tree s1)\<rparr>))))))"

subsection \<open>Sections\<close>

definition addSectionKey :: "store \<Rightarrow> nat \<Rightarrow> string \<Rightarrow> jsval \<Rightarrow> ret \<times> store" where
  "addSectionKey s idx key val =
     (case tree_at (tree s) idx of
        None \<Rightarrow> (RetErr ''invalid section id'', s)
      | Some sec \<Rightarrow>
          (case map_of (index s) key of
             Some (Suc n) \<Rightarrow> (RetErr ''key already exist'', s)
           | _ \<Rightarrow>
               (RetUndef,
                s\<lparr>tree := (tree s)[idx := sec\<lparr>data := AList.update key val (data sec)\<rparr>],
                  index := AList.update key idx (index s)\<rparr>)))"

text \<open>The options of \<open>addSection\<close>: \<open>None\<close> is a property that is not in the object.\<close>

record section_opts =
  sec_id :: "nat option"
  sec_key :: "string option"
  sec_value :: "jsval option"
  sec_comment :: "string option"

definition addSection :: "store \<Rightarrow> section_opts \<Rightarrow> ret \<times> store" where
  "addSection s so =
     (let key_given = (case sec_key so of Some k \<Rightarrow> k \<noteq> [] | None \<Rightarrow> False);
          comment_given = (case sec_comment so of Some c \<Rightarrow> c \<noteq> [] | None \<Rightarrow> False)
      in
      if sec_id so = None \<and> sec_key so = None \<and> sec_value so = None \<and> sec_comment so = None
      then (RetErr ''no params supplied'', s)
      else if (key_given \<or> sec_value so \<noteq> None) \<and> (\<not> key_given \<or> sec_value so = None)
      then (RetErr ''when setting key, both key and value are required'', s)
      else if key_given \<and> map_of (index s) (the (sec_key so)) \<noteq> None
      then (RetErr ''key already exist'', s)
      else
        (let dat = (if key_given then [(the (sec_key so), the (sec_value so))] else []);
             sec = \<lparr>comment = formatComment (sopts s) (sec_comment so), data = dat\<rparr>
         in case sec_id so of
              Some i \<Rightarrow>
                if \<not> key_given \<and> \<not> comment_given then (RetErr ''no data'', s)
                else if tree_at (tree s) i = None then (RetErr ''invalid section id'', s)
                else (RetId i, rebuildIndex (s\<lparr>tree := take i (tree s) @ [sec] @ drop i (tree s)\<rparr>))
            | None \<Rightarrow>
                (RetId (length (tree s)), rebuildIndex (s\<lparr>tree := tree s @ [sec]\<rparr>))))"

definition moveSection :: "store \<Rightarrow> nat \<Rightarrow> nat \<Rightarrow> ret \<times> store" where
  "moveSection s idxFrom idxTo =
     (if tree_at (tree s) idxFrom = None \<or> tree_at (tree s) idxTo = None
      then (RetErr ''invalid section id'', s)
      else
        (let sec = tree s ! idxFrom;
             t1 = take idxFrom (tree s) @ drop (Suc idxFrom) (tree s);
             to = (if idxFrom < idxTo then idxTo - 1 else idxTo)
         in (RetUndef, rebuildIndex (s\<lparr>tree := take to t1 @ [sec] @ drop to t1\<rparr>))))"

text \<open>\<open>_commonArrays(arr1, arr2)\<close>\<close>

definition commonArrays :: "string list \<Rightarrow> string list \<Rightarrow> bool" where
  "commonArrays arr1 arr2 = (length (filter (\<lambda>item. item \<in> set arr2) arr1) = length arr2)"

definition reorderSection :: "store \<Rightarrow> nat \<Rightarrow> string list \<Rightarrow> ret \<times> store" where
  "reorderSection s idx newOrder =
     (case tree_at (tree s) idx of
        None \<Rightarrow> (RetErr ''invalid section id'', s)
      | Some sec \<Rightarrow>
          if \<not> commonArrays (keys (data sec)) newOrder
          then (RetErr ''invalid new order array'', s)
          else
            (RetUndef,
             s\<lparr>tree := (tree s)[idx := sec\<lparr>data :=
                  fold (\<lambda>key dat. AList.update key (obj_get (data sec) key) dat) newOrder []\<rparr>]\<rparr>))"

definition deleteSection :: "store \<Rightarrow> nat \<Rightarrow> ret \<times> store" where
  "deleteSection s idx =
     (if tree_at (tree s) idx = None then (RetErr ''invalid section id'', s)
      else (RetUndef, rebuildIndex (s\<lparr>tree := take idx (tree s) @ drop (Suc idx) (tree s)\<rparr>)))"

subsection \<open>Sync\<close>

record sync_opts =
  update :: bool
  merge :: bool
  mirror :: bool

text \<open>The own properties of the value given to \<open>sync\<close>; \<open>None\<close> when it is
  not of type object, or is \<open>null\<close>.\<close>

definition own_props :: "jsval \<Rightarrow> jsobject option" where
  "own_props v =
     (case v of
        Obj kvs \<Rightarrow> Some kvs
      | Arr xs \<Rightarrow> Some (zip (map show_nat [0 ..< length xs]) xs)
      | _ \<Rightarrow> None)"

text \<open>\<open>key[0] != '$'\<close>\<close>

definition not_marked :: "string \<Rightarrow> bool" where
  "not_marked key = (case key of [] \<Rightarrow> True | c # _ \<Rightarrow> c \<noteq> CHR ''$'')"

text \<open>The loop of the update mode, and \<open>_sync__merge\<close>: both read the index as it was
  before the call.\<close>

fun sync_update :: "(string \<times> nat) list \<Rightarrow> jsobject \<Rightarrow> string list \<Rightarrow> entry list \<Rightarrow> exn + entry list" where
  "sync_update ix ob [] t = Inr t"
| "sync_update ix ob (key # rest) t =
     (case map_of ix key of
        None \<Rightarrow> sync_update ix ob rest t
      | Some idx \<Rightarrow>
          (case tree_at t idx of
             None \<Rightarrow> Inl TypeError
           | Some sec \<Rightarrow>
               sync_update ix ob rest
                 (t[idx := sec\<lparr>data := AList.update key (obj_get ob key) (data sec)\<rparr>])))"

fun sync_merge :: "(string \<times> nat) list \<Rightarrow> jsobject \<Rightarrow> string list \<Rightarrow> entry list \<Rightarrow> exn + entry list" where
  "sync_merge ix ob [] t = Inr t"
| "sync_merge ix ob (key # rest) t =
     (case map_of ix key of
        None \<Rightarrow> sync_merge ix ob rest (t @ [\<lparr>comment = [], data = [(key, obj_get ob key)]\<rparr>])
      | Some idx \<Rightarrow>
          (case tree_at t idx of
             None \<Rightarrow> Inl TypeError
           | Some sec \<Rightarrow>
               sync_merge ix ob rest
                 (t[idx := sec\<lparr>data := AList.update key (obj_get ob key) (data sec)\<rparr>])))"

text \<open>The deletions of the mirror mode, over the keys \<open>getKeys()\<close> returned before the
  first one.\<close>

fun mirror_delete :: "string list \<Rightarrow> string list \<Rightarrow> store \<Rightarrow> exn + store" where
  "mirror_delete objKeys [] s = Inr s"
| "mirror_delete objKeys (localKey # rest) s =
     (if localKey \<notin> set objKeys then
        (case delete' s localKey True of
           Inl e \<Rightarrow> Inl e
         | Inr (r, s') \<Rightarrow> mirror_delete objKeys rest s')
      else mirror_delete objKeys rest s)"

definition sync :: "store \<Rightarrow> jsval \<Rightarrow> sync_opts \<Rightarrow> exn + (ret \<times> store)" where
  "sync s obj so =
     (case own_props obj of
        None \<Rightarrow> Inr (RetErr ''sync requires an object'', s)
      | Some ob \<Rightarrow>
          (let objKeys = filter not_marked (keys ob) in
           if update so then
             (case sync_update (index s) ob (keys ob) (tree s) of
                Inl e \<Rightarrow> Inl e
              | Inr t \<Rightarrow> Inr (RetUndef, rebuildIndex (s\<lparr>tree := t\<rparr>)))
           else if merge so then
             (case sync_merge (index s) ob objKeys (tree s) of
                Inl e \<Rightarrow> Inl e
              | Inr t \<Rightarrow> Inr (RetUndef, rebuildIndex (s\<lparr>tree := t\<rparr>)))
           else if mirror so then
             (case sync_merge (index s) ob objKeys (tree s) of
                Inl e \<Rightarrow> Inl e
              | Inr t \<Rightarrow>
                  (case mirror_delete objKeys (getKeys (s\<lparr>tree := t\<rparr>)) (s\<lparr>tree := t\<rparr>) of
                     Inl e \<Rightarrow> Inl e
                   | Inr s' \<Rightarrow> Inr (RetUndef, rebuildIndex s')))
           else Inr (RetErr ''sync mode not specified'', s)))"

section \<open>The serializer\<close>

text \<open>\<open>`${value}`\<close>: the string a value is written as.  An array joins its elements
  with commas, \<open>null\<close> and \<open>undefined\<close> elements being empty.\<close>

fun to_string :: "jsval \<Rightarrow> string" where
  "to_string Undefined = ''undefined''"
| "to_string Null = ''null''"
| "to_string (Bool b) = (if b then ''true'' else ''false'')"
| "to_string (Num n) = show_int n"
| "to_string (Flt l) = l"
| "to_string (Str s) = s"
| "to_string (Arr xs) =
     join '','' (map (\<lambda>x. if x = Undefined \<or> x = Null then [] else to_string x) xs)"
| "to_string (Obj kvs) = ''[object Object]''"

text \<open>\<open>throwOnInvalidSubkey(data)\<close> throws on the values \<open>invalid_subvalue\<close> holds of.\<close>

definition invalid_msg :: string where
  "invalid_msg = ''Comfig: invalid object value, deep objects, arrays and multiline strings are not allowed''"

definition nl :: string where
  "nl = [CHR 0x0A]"

text \<open>The text pushed for one key of a section.\<close>

definition serialize_key :: "opts \<Rightarrow> string \<Rightarrow> jsval \<Rightarrow> exn + string" where
  "serialize_key ops key v =
     (case v of
        Arr xs \<Rightarrow>
          if list_ex invalid_subvalue xs then Inl (Error invalid_msg)
          else Inr (key @ opt_assign ops @ ''['' @ nl
                    @ join nl (map (\<lambda>x. opt_indent ops @ to_string x) xs) @ nl @ '']'' @ nl)
      | Obj kvs \<Rightarrow>
          if list_ex (\<lambda>(skey, x). invalid_subvalue x) kvs then Inl (Error invalid_msg)
          else Inr (key @ opt_assign ops @ ''{'' @ nl
                    @ join nl (map (\<lambda>(skey, x). opt_indent ops @ skey @ opt_assign ops @ to_string x) kvs)
                    @ nl @ ''}'' @ nl)
      | Str str \<Rightarrow>
          if CHR 0x0A \<in> set str
          then Inr (key @ opt_assign ops @ [CHR 0x22, CHR 0x22, CHR 0x22] @ nl @ str @ nl
                    @ [CHR 0x22, CHR 0x22, CHR 0x22] @ nl)
          else Inr (key @ opt_assign ops @ str @ nl)
      | Undefined \<Rightarrow> Inr (key @ opt_assign ops @ to_string Null @ nl)
      | _ \<Rightarrow> Inr (key @ opt_assign ops @ to_string v @ nl))"

fun serialize_data :: "opts \<Rightarrow> jsobject \<Rightarrow> exn + string list" where
  "serialize_data ops [] = Inr []"
| "serialize_data ops ((key, v) # rest) =
     (case serialize_key ops key v of
        Inl e \<Rightarrow> Inl e
      | Inr l \<Rightarrow> (case serialize_data ops rest of Inl e \<Rightarrow> Inl e | Inr ls \<Rightarrow> Inr (l # ls)))"

text \<open>The lines pushed for the sections, each closed by a line break of its own.\<close>

fun serialize_sections :: "opts \<Rightarrow> entry list \<Rightarrow> exn + string list" where
  "serialize_sections ops [] = Inr []"
| "serialize_sections ops (sec # rest) =
     (case serialize_data ops (data sec) of
        Inl e \<Rightarrow> Inl e
      | Inr ls \<Rightarrow>
          (case serialize_sections ops rest of
             Inl e \<Rightarrow> Inl e
           | Inr others \<Rightarrow> Inr ((if comment sec \<noteq> [] then [comment sec] else []) @ ls @ [nl] @ others)))"

text \<open>\<open>while(lines[lines.length - 1] == '\n') lines.pop()\<close>\<close>

definition pop_newlines :: "string list \<Rightarrow> string list" where
  "pop_newlines ls = rev (dropWhile (\<lambda>l. l = nl) (rev ls))"

definition serialize_tree :: "opts \<Rightarrow> entry list \<Rightarrow> exn + string" where
  "serialize_tree ops t =
     (case serialize_sections ops t of
        Inl e \<Rightarrow> Inl e
      | Inr ls \<Rightarrow> Inr (concat (pop_newlines ls)))"

definition serialize :: "store \<Rightarrow> exn + string" where
  "serialize s = serialize_tree (sopts s) (tree s)"

section \<open>The parser\<close>

text \<open>The character classes of the regular expressions, on 8-bit characters: \<open>\s\<close> (also
  what \<open>trim()\<close> strips: white space, the no-break space and the line terminators),
  \<open>[\w_-]\<close>, and the line terminators, which \<open>.\<close> does not match.\<close>

definition is_space :: "char \<Rightarrow> bool" where
  "is_space c =
     (c \<in> set [CHR 0x20, CHR 0x09, CHR 0x0A, CHR 0x0B, CHR 0x0C, CHR 0x0D, CHR 0xA0])"

definition is_word :: "char \<Rightarrow> bool" where
  "is_word c =
     (c \<in> set ''abcdefghijklmnopqrstuvwxyzABCDEFGHIJKLMNOPQRSTUVWXYZ0123456789_-'')"

definition is_line_end :: "char \<Rightarrow> bool" where
  "is_line_end c = (c = CHR 0x0A \<or> c = CHR 0x0D)"

definition trim :: "string \<Rightarrow> string" where
  "trim s = rev (dropWhile is_space (rev (dropWhile is_space s)))"

text \<open>\<open>^([\w_-]+)\s*[:=]\<close>: the key, and the text after the assignment character.\<close>

definition match_head :: "string \<Rightarrow> (string \<times> string) option" where
  "match_head line =
     (let key = takeWhile is_word line;
          r = dropWhile is_space (dropWhile is_word line)
      in if key \<noteq> [] \<and> r \<noteq> [] \<and> (hd r = CHR '':'' \<or> hd r = CHR ''='')
         then Some (key, tl r) else None)"

text \<open>\<open>regex.multistring\<close>, \<open>/^([\w_-]+)\s*[:=]\s* """/\<close>: the space before the quotes
  is the last of the white space after the assignment character.\<close>

definition match_multistring :: "string \<Rightarrow> string option" where
  "match_multistring line =
     (case match_head line of
        None \<Rightarrow> None
      | Some (key, rest) \<Rightarrow>
          (let ws = takeWhile is_space rest in
           if ws \<noteq> [] \<and> last ws = CHR 0x20 \<and>
              take 3 (dropWhile is_space rest) = [CHR 0x22, CHR 0x22, CHR 0x22]
           then Some key else None))"

text \<open>\<open>regex.array\<close> and \<open>regex.object\<close>\<close>

definition match_open :: "char \<Rightarrow> string \<Rightarrow> string option" where
  "match_open c line =
     (case match_head line of
        None \<Rightarrow> None
      | Some (key, rest) \<Rightarrow>
          (if take 1 (dropWhile is_space rest) = [c] then Some key else None))"

text \<open>\<open>regex.option\<close>, \<open>/^([\w_-]+)\s*[:=]\s*(.*)/\<close>\<close>

definition match_option :: "string \<Rightarrow> (string \<times> string) option" where
  "match_option line =
     (case match_head line of
        None \<Rightarrow> None
      | Some (key, rest) \<Rightarrow> Some (key, takeWhile (\<lambda>c. \<not> is_line_end c) (dropWhile is_space rest)))"

text \<open>\<open>regex.objectBody\<close>, \<open>/^\s+([\w_-]+)\s*[:=]\s*(.*)/\<close>\<close>

definition match_objectBody :: "string \<Rightarrow> (string \<times> string) option" where
  "match_objectBody line =
     (if takeWhile is_space line = [] then None else match_option (dropWhile is_space line))"

text \<open>\<open>convertValue(val)\<close>.  A number with a fraction of zeros only is the integer; any
  other is kept by its literal, without the zeros that do not count.\<close>

definition is_float_literal :: "string \<Rightarrow> bool" where
  "is_float_literal s =
     (let ip = takeWhile is_digit s; r = dropWhile is_digit s
      in ip \<noteq> [] \<and> r \<noteq> [] \<and> hd r = CHR ''.'' \<and> tl r \<noteq> [] \<and> list_all is_digit (tl r))"

definition parse_float :: "string \<Rightarrow> jsval" where
  "parse_float s =
     (let ip = takeWhile is_digit s;
          fp = rev (dropWhile (\<lambda>c. c = CHR ''0'') (rev (tl (dropWhile is_digit s))))
      in if fp = [] then Num (int (parse_nat ip))
         else Flt (show_nat (parse_nat ip) @ ''.'' @ fp))"

definition convertValue :: "string \<Rightarrow> jsval" where
  "convertValue val0 =
     (let val = trim val0 in
      if val \<noteq> [] \<and> list_all is_digit val then Num (int (parse_nat val))
      else if is_float_literal val then parse_float val
      else if val = ''true'' then Bool True
      else if val = ''false'' then Bool False
      else if val = ''null'' \<or> val = ''undefined'' \<or> val = [] then Null
      else Str val)"

text \<open>The parser's state.  \<open>last\<close> says what the previous line was; while a block is open
  it holds the block's key and buffer.\<close>

datatype mode =
    NoMode
  | Blank
  | MultiString string "string list"
  | ArrayMode string "jsval list"
  | ObjectMode string jsobject

record parser =
  p_tree :: "entry list"
  p_section :: entry
  sectionId :: nat
  p_index :: "(string \<times> nat) list"
  p_last :: mode

definition resetSection :: "parser \<Rightarrow> parser" where
  "resetSection p = p\<lparr>sectionId := Suc (sectionId p), p_section := \<lparr>comment = [], data = []\<rparr>\<rparr>"

definition flush :: "parser \<Rightarrow> parser" where
  "flush p =
     (if comment (p_section p) = [] \<and> data (p_section p) = [] then p
      else resetSection (p\<lparr>p_tree := p_tree p @ [p_section p]\<rparr>))"

definition addComment :: "parser \<Rightarrow> string \<Rightarrow> parser" where
  "addComment p c = p\<lparr>p_section := (p_section p)\<lparr>comment := comment (p_section p) @ c @ nl\<rparr>\<rparr>"

definition addKey :: "parser \<Rightarrow> string \<Rightarrow> jsval \<Rightarrow> parser" where
  "addKey p key val =
     p\<lparr>p_section := (p_section p)\<lparr>data := AList.update key val (data (p_section p))\<rparr>,
       p_index := AList.update key (sectionId p) (p_index p)\<rparr>"

definition is_multistring :: "mode \<Rightarrow> bool" where
  "is_multistring m = (case m of MultiString k b \<Rightarrow> True | _ \<Rightarrow> False)"

definition quotes3 :: string where
  "quotes3 = [CHR 0x22, CHR 0x22, CHR 0x22]"

text \<open>The body of the loop over the lines, in the order of its tests.  An object's body
  line that does not match \<open>regex.objectBody\<close> throws (\<open>r\<close> is \<open>null\<close>).\<close>

definition parse_line :: "parser \<Rightarrow> string \<Rightarrow> exn + parser" where
  "parse_line p line =
     (let lean = trim line in
      if lean = [] then
        (case p_last p of
           MultiString key buffer \<Rightarrow> Inr (p\<lparr>p_last := MultiString key (buffer @ [line])\<rparr>)
         | Blank \<Rightarrow> Inr (p\<lparr>p_last := Blank\<rparr>)
         | _ \<Rightarrow> Inr ((flush p)\<lparr>p_last := Blank\<rparr>))
      else if match_multistring line \<noteq> None then
        Inr (p\<lparr>p_last := MultiString (the (match_multistring line)) []\<rparr>)
      else if is_multistring (p_last p) then
        (case p_last p of
           MultiString key buffer \<Rightarrow>
             if lean \<noteq> quotes3 then Inr (p\<lparr>p_last := MultiString key (buffer @ [line])\<rparr>)
             else Inr ((addKey p key (Str (join nl buffer)))\<lparr>p_last := NoMode\<rparr>)
         | _ \<Rightarrow> Inr p)
      else if match_open CHR ''['' line \<noteq> None then
        Inr (p\<lparr>p_last := ArrayMode (the (match_open CHR ''['' line)) []\<rparr>)
      else
        (case p_last p of
           ArrayMode key buffer \<Rightarrow>
             if lean \<noteq> '']'' then Inr (p\<lparr>p_last := ArrayMode key (buffer @ [convertValue line])\<rparr>)
             else Inr ((addKey p key (Arr buffer))\<lparr>p_last := NoMode\<rparr>)
         | _ \<Rightarrow>
             if match_open CHR ''{'' line \<noteq> None then
               Inr (p\<lparr>p_last := ObjectMode (the (match_open CHR ''{'' line)) []\<rparr>)
             else
               (case p_last p of
                  ObjectMode key buffer \<Rightarrow>
                    if lean \<noteq> ''}'' then
                      (case match_objectBody line of
                         None \<Rightarrow> Inl TypeError
                       | Some (skey, sval) \<Rightarrow>
                           Inr (p\<lparr>p_last := ObjectMode key (AList.update skey (convertValue sval) buffer)\<rparr>))
                    else Inr ((addKey p key (Obj buffer))\<lparr>p_last := NoMode\<rparr>)
                | _ \<Rightarrow>
                    (case match_option line of
                       Some (key, val) \<Rightarrow> Inr ((addKey p key (convertValue val))\<lparr>p_last := NoMode\<rparr>)
                     | None \<Rightarrow> Inr ((addComment p line)\<lparr>p_last := NoMode\<rparr>)))))"

fun parse_lines :: "parser \<Rightarrow> string list \<Rightarrow> exn + parser" where
  "parse_lines p [] = Inr p"
| "parse_lines p (line # rest) =
     (case parse_line p line of Inl e \<Rightarrow> Inl e | Inr p' \<Rightarrow> parse_lines p' rest)"

text \<open>\<open>new ComfigParser(text)\<close>: the first carriage return is removed, the lines are
  parsed, and the section in progress is flushed.\<close>

definition init_parser :: parser where
  "init_parser =
     \<lparr>p_tree = [], p_section = \<lparr>comment = [], data = []\<rparr>, sectionId = 0, p_index = [],
      p_last = NoMode\<rparr>"

definition parse :: "string \<Rightarrow> exn + parser" where
  "parse txt =
     (case parse_lines init_parser (split_on CHR 0x0A (remove1 CHR 0x0D txt)) of
        Inl e \<Rightarrow> Inl e
      | Inr p \<Rightarrow> Inr (flush p))"

text \<open>\<open>import(comfigText)\<close>\<close>

definition import' :: "store \<Rightarrow> string \<Rightarrow> exn + store" where
  "import' s txt =
     (case parse txt of
        Inl e \<Rightarrow> Inl e
      | Inr p \<Rightarrow> Inr (s\<lparr>tree := p_tree p, index := p_index p\<rparr>))"


section \<open>Trees that are read back as written\<close>












section \<open>The lines of a serialized tree\<close>







section \<open>The invariant of the index\<close>

text \<open>Every key of the section at position \<open>i\<close> is indexed at \<open>i\<close>, and every entry of
  the index names a key of the section it points to.\<close>

definition index_ok :: "store \<Rightarrow> bool" where
  "index_ok s =
     (list_all (\<lambda>i. list_all (\<lambda>k. map_of (index s) k = Some i) (keys (data (tree s ! i))))
        [0 ..< length (tree s)] \<and>
      list_all (\<lambda>(k, i). i < length (tree s) \<and> k \<in> set (keys (data (tree s ! i)))) (index s))"

text \<open>The objects of a store have each property once.\<close>

definition wf_store :: "store \<Rightarrow> bool" where
  "wf_store s =
     (distinct (map fst (index s)) \<and> list_all (\<lambda>sec. distinct (keys (data sec))) (tree s))"

section \<open>What the sync loops maintain\<close>




section \<open>Paths and the index\<close>

lemma split_on_no_sep: "c \<notin> set s \<Longrightarrow> split_on c s = [s]"
  by (induction s) auto

lemma split_on_prefix: "c \<notin> set k \<Longrightarrow> split_on c (k @ c # r) = k # split_on c r"
  by (induction k) (auto split: list.splits)

lemma split_dotkey_dotted:
  "CHR ''.'' \<notin> set key \<Longrightarrow> CHR ''.'' \<notin> set subkey \<Longrightarrow>
   split_dotkey (key @ ''.'' @ subkey) = (key, Some subkey)"
  by (simp add: split_dotkey_def split_on_prefix split_on_no_sep)

lemma split_dotkey_bare: "CHR ''.'' \<notin> set key \<Longrightarrow> split_dotkey key = (key, None)"
  by (simp add: split_dotkey_def split_on_no_sep)









section \<open>Deleting a key\<close>



section \<open>Setting a sub-key\<close>

text \<open>
  C8.  For a dotted path \<open>key.subkey\<close>, \<open>set\<close> with a value that is an array, an object
  or a string with a line break returns an error object and leaves the store as it was,
  whether the key exists or not and whatever the options are; it does not throw.
\<close>

theorem set_subkey_rejects_nonprimitive:
  assumes "CHR ''.'' \<notin> set key" and "CHR ''.'' \<notin> set subkey" and "subkey \<noteq> []"
    and "(\<exists>xs. v = Arr xs) \<or> (\<exists>kvs. v = Obj kvs) \<or> (\<exists>str. v = Str str \<and> CHR 0x0A \<in> set str)"
  shows "\<exists>msg. set' s (key @ ''.'' @ subkey) v so = Inr (RetErr msg, s)"
proof -
  have inv: "validateSubkeyValue v \<noteq> None"
    using assms(4) by (auto simp: validateSubkeyValue_def invalid_subvalue_def)
  have sp: "split_dotkey (key @ ''.'' @ subkey) = (key, Some subkey)"
    using assms(1,2) by (rule split_dotkey_dotted)
  show ?thesis
  proof (cases "map_of (index s) key")
    case None
    then show ?thesis using inv sp assms(3) by (simp add: set'_def)
  next
    case (Some idx)
    then show ?thesis using inv sp assms(3) by (simp add: set'_def)
  qed
qed

theorem set_subkey_rejects_nonprimitive_witness:
  "(\<exists>msg. set' \<lparr>tree = [\<lparr>comment = [], data = [(''a'', Obj [(''b'', Num 1)])]\<rparr>],
                  index = [(''a'', 0)], sopts = default_opts\<rparr>
             ''a.b'' (Str [CHR ''x'', CHR 0x0A, CHR ''y'']) \<lparr>create = False, new_comment = None\<rparr>
           = Inr (RetErr msg, \<lparr>tree = [\<lparr>comment = [], data = [(''a'', Obj [(''b'', Num 1)])]\<rparr>],
                                index = [(''a'', 0)], sopts = default_opts\<rparr>)) \<and>
   (\<exists>msg. set' \<lparr>tree = [], index = [], sopts = default_opts\<rparr>
             ''c.d'' (Arr [Num 1]) \<lparr>create = True, new_comment = None\<rparr>
           = Inr (RetErr msg, \<lparr>tree = [], index = [], sopts = default_opts\<rparr>))"
  using set_subkey_rejects_nonprimitive
    [of "''a''" "''b''" "Str [CHR ''x'', CHR 0x0A, CHR ''y'']"
        "\<lparr>tree = [\<lparr>comment = [], data = [(''a'', Obj [(''b'', Num 1)])]\<rparr>],
          index = [(''a'', 0)], sopts = default_opts\<rparr>" "\<lparr>create = False, new_comment = None\<rparr>"]
    set_subkey_rejects_nonprimitive
    [of "''c''" "''d''" "Arr [Num 1]" "\<lparr>tree = [], index = [], sopts = default_opts\<rparr>"
        "\<lparr>create = True, new_comment = None\<rparr>"]
  by simp

section \<open>hasKey\<close>

text \<open>
  C10.  \<open>hasKey(dotKey)\<close> is true exactly when \<open>get(dotKey)\<close>, called with no default,
  yields a truthy value.  So, for a key that is in the store with the value \<open>false\<close>, \<open>0\<close>,
  \<open>null\<close> or the empty string, \<open>hasKey\<close> is false although the key exists.
\<close>

theorem hasKey_is_truthy_get:
  "(hasKey s dotKey = Inr True \<longleftrightarrow> (\<exists>v. get s dotKey Undefined = Inr v \<and> truthy v)) \<and>
   (CHR ''.'' \<notin> set key \<and> map_of (index s) key = Some idx \<and> idx < length (tree s) \<and>
    map_of (data (tree s ! idx)) key = Some v \<and> v \<in> {Bool False, Num 0, Null, Str []}
    \<longrightarrow> hasKey s key = Inr False)"
proof
  show "hasKey s dotKey = Inr True \<longleftrightarrow> (\<exists>v. get s dotKey Undefined = Inr v \<and> truthy v)"
    by (cases "get s dotKey Undefined") (auto simp: hasKey_def)
next
  show "CHR ''.'' \<notin> set key \<and> map_of (index s) key = Some idx \<and> idx < length (tree s) \<and>
    map_of (data (tree s ! idx)) key = Some v \<and> v \<in> {Bool False, Num 0, Null, Str []}
    \<longrightarrow> hasKey s key = Inr False"
  proof
    assume h: "CHR ''.'' \<notin> set key \<and> map_of (index s) key = Some idx \<and> idx < length (tree s) \<and>
      map_of (data (tree s ! idx)) key = Some v \<and> v \<in> {Bool False, Num 0, Null, Str []}"
    then have "get s key Undefined = Inr v"
      by (simp add: get_def split_dotkey_bare tree_at_def obj_get_def)
    moreover have "\<not> truthy v" using h by auto
    ultimately show "hasKey s key = Inr False" by (simp add: hasKey_def)
  qed
qed

theorem hasKey_is_truthy_get_witness:
  "hasKey \<lparr>tree = [\<lparr>comment = [], data = [(''port'', Num 0), (''name'', Str ''x'')]\<rparr>],
           index = [(''port'', 0), (''name'', 0)], sopts = default_opts\<rparr> ''port'' = Inr False \<and>
   get \<lparr>tree = [\<lparr>comment = [], data = [(''port'', Num 0), (''name'', Str ''x'')]\<rparr>],
        index = [(''port'', 0), (''name'', 0)], sopts = default_opts\<rparr> ''port'' Undefined = Inr (Num 0)"
  using hasKey_is_truthy_get
    [of "\<lparr>tree = [\<lparr>comment = [], data = [(''port'', Num 0), (''name'', Str ''x'')]\<rparr>],
          index = [(''port'', 0), (''name'', 0)], sopts = default_opts\<rparr>" "''port''" "''port''" 0 "Num 0"]
  by (simp add: get_def split_dotkey_def tree_at_def obj_get_def)

section \<open>Values the serializer refuses\<close>

lemma invalid_subvalue_iff:
  "invalid_subvalue x \<longleftrightarrow>
     (\<exists>ys. x = Arr ys) \<or> (\<exists>kvs. x = Obj kvs) \<or> (\<exists>str. x = Str str \<and> CHR 0x0A \<in> set str)"
  by (cases x) (simp_all add: invalid_subvalue_def)

lemma serialize_key_Inl:
  "serialize_key ops key v = Inl e \<longleftrightarrow>
     e = Error invalid_msg \<and>
     ((\<exists>xs. v = Arr xs \<and> (\<exists>x\<in>set xs. invalid_subvalue x)) \<or>
      (\<exists>kvs. v = Obj kvs \<and> (\<exists>(skey, x)\<in>set kvs. invalid_subvalue x)))"
  by (cases v) (auto simp: serialize_key_def list_ex_iff)

lemma serialize_data_Inl:
  "serialize_data ops dat = Inl e \<longleftrightarrow>
     e = Error invalid_msg \<and> (\<exists>(key, v)\<in>set dat. serialize_key ops key v = Inl (Error invalid_msg))"
proof (induction dat)
  case Nil
  show ?case by simp
next
  case (Cons kv dat)
  obtain key v where kv: "kv = (key, v)" by (cases kv)
  show ?case
  proof (cases "serialize_key ops key v")
    case (Inl e')
    then have "e' = Error invalid_msg" by (simp add: serialize_key_Inl)
    then show ?thesis using kv Inl by auto
  next
    case (Inr l)
    then show ?thesis using kv Cons.IH by (auto split: sum.splits)
  qed
qed

lemma serialize_sections_Inl:
  "serialize_sections ops t = Inl e \<longleftrightarrow>
     e = Error invalid_msg \<and> (\<exists>sec\<in>set t. serialize_data ops (data sec) = Inl (Error invalid_msg))"
proof (induction t)
  case Nil
  show ?case by simp
next
  case (Cons sec t)
  show ?case
  proof (cases "serialize_data ops (data sec)")
    case (Inl e')
    then have "e' = Error invalid_msg" by (simp add: serialize_data_Inl)
    then show ?thesis using Inl by auto
  next
    case (Inr ls)
    then show ?thesis using Cons.IH by (auto split: sum.splits)
  qed
qed

lemma serialize_Inl:
  "serialize s = Inl e \<longleftrightarrow>
     e = Error invalid_msg \<and>
     (\<exists>sec\<in>set (tree s). \<exists>(key, v)\<in>set (data sec).
         (\<exists>xs. v = Arr xs \<and> (\<exists>x\<in>set xs. invalid_subvalue x)) \<or>
         (\<exists>kvs. v = Obj kvs \<and> (\<exists>(skey, x)\<in>set kvs. invalid_subvalue x)))"
proof -
  have "serialize s = Inl e \<longleftrightarrow> serialize_sections (sopts s) (tree s) = Inl e"
    by (simp add: serialize_def serialize_tree_def split: sum.splits)
  then show ?thesis
    unfolding serialize_sections_Inl serialize_data_Inl serialize_key_Inl by simp
qed

text \<open>
  C7.  \<open>serialize\<close> throws (it does not return an error object) exactly when some element
  of an array, or some value of an object, stored in the tree is itself an array, an object
  or a string with a line break; in every other case it returns the text.  A string with a
  line break stored as a top-level value is therefore no reason to fail.
\<close>

theorem serialize_throws_iff:
  "(serialize s = Inl (Error invalid_msg) \<longleftrightarrow>
      (\<exists>sec\<in>set (tree s). \<exists>(key, v)\<in>set (data sec). \<exists>x.
         ((\<exists>xs. v = Arr xs \<and> x \<in> set xs) \<or> (\<exists>kvs skey. v = Obj kvs \<and> (skey, x) \<in> set kvs)) \<and>
         ((\<exists>ys. x = Arr ys) \<or> (\<exists>kvs. x = Obj kvs) \<or> (\<exists>str. x = Str str \<and> CHR 0x0A \<in> set str)))) \<and>
   ((\<exists>out. serialize s = Inr out) \<or> serialize s = Inl (Error invalid_msg))"
  (is "(?L \<longleftrightarrow> ?R) \<and> ?T")
proof
  have "?L \<longleftrightarrow>
      (\<exists>sec\<in>set (tree s). \<exists>(key, v)\<in>set (data sec).
         (\<exists>xs. v = Arr xs \<and> (\<exists>x\<in>set xs. invalid_subvalue x)) \<or>
         (\<exists>kvs. v = Obj kvs \<and> (\<exists>(skey, x)\<in>set kvs. invalid_subvalue x)))"
    by (simp add: serialize_Inl)
  also have "\<dots> \<longleftrightarrow> ?R"
    unfolding invalid_subvalue_iff by (intro bex_cong refl) blast
  finally show "?L \<longleftrightarrow> ?R" .
next
  show ?T
  proof (cases "serialize s")
    case (Inl e)
    then have "e = Error invalid_msg" by (simp add: serialize_Inl)
    with Inl show ?thesis by simp
  next
    case (Inr out)
    then show ?thesis by simp
  qed
qed

theorem serialize_throws_iff_witness:
  "serialize \<lparr>tree = [\<lparr>comment = [], data = [(''A'', Obj [(''B'', Obj [(''C'', Num 1)])])]\<rparr>],
             index = [(''A'', 0)], sopts = default_opts\<rparr> = Inl (Error invalid_msg) \<and>
   (\<exists>out. serialize \<lparr>tree = [\<lparr>comment = [], data = [(''m'', Str [CHR ''x'', CHR 0x0A, CHR ''y''])]\<rparr>],
                    index = [(''m'', 0)], sopts = default_opts\<rparr> = Inr out)"
  using serialize_throws_iff
    [of "\<lparr>tree = [\<lparr>comment = [], data = [(''A'', Obj [(''B'', Obj [(''C'', Num 1)])])]\<rparr>],
          index = [(''A'', 0)], sopts = default_opts\<rparr>"]
    serialize_throws_iff
    [of "\<lparr>tree = [\<lparr>comment = [], data = [(''m'', Str [CHR ''x'', CHR 0x0A, CHR ''y''])]\<rparr>],
          index = [(''m'', 0)], sopts = default_opts\<rparr>"]
  by auto

section \<open>Where the index goes wrong\<close>

text \<open>
  C4.  \<open>addSectionKey\<close> tests \<open>this.index[key]\<close> for truth, and the position 0 is falsy:
  a key owned by the first section is added a second time, to section 1, and the index
  entry is moved; the same call for a key owned by section 1 is refused.
\<close>

theorem addSectionKey_duplicates_key_of_section_0:
  "addSectionKey
     \<lparr>tree = [\<lparr>comment = [], data = [(''a'', Num 1)]\<rparr>, \<lparr>comment = [], data = [(''b'', Num 2)]\<rparr>],
      index = [(''a'', 0), (''b'', 1)], sopts = default_opts\<rparr> 1 ''a'' (Num 9)
   = (RetUndef,
      \<lparr>tree = [\<lparr>comment = [], data = [(''a'', Num 1)]\<rparr>,
               \<lparr>comment = [], data = [(''b'', Num 2), (''a'', Num 9)]\<rparr>],
       index = [(''a'', 1), (''b'', 1)], sopts = default_opts\<rparr>) \<and>
   addSectionKey
     \<lparr>tree = [\<lparr>comment = [], data = [(''a'', Num 1)]\<rparr>, \<lparr>comment = [], data = [(''b'', Num 2)]\<rparr>],
      index = [(''a'', 0), (''b'', 1)], sopts = default_opts\<rparr> 0 ''b'' (Num 9)
   = (RetErr ''key already exist'',
      \<lparr>tree = [\<lparr>comment = [], data = [(''a'', Num 1)]\<rparr>, \<lparr>comment = [], data = [(''b'', Num 2)]\<rparr>],
       index = [(''a'', 0), (''b'', 1)], sopts = default_opts\<rparr>)"
  by (simp add: addSectionKey_def tree_at_def)

text \<open>
  C3.  \<open>reorderSection\<close> accepts an array that names only some of the section's keys:
  \<open>_commonArrays\<close> compares the number of the section's keys found in the array with the
  length of the array.  The keys left out are dropped from the section, and stay in the
  index.  A permutation is accepted and a superset refused, as the claim says.
\<close>

theorem reorderSection_accepts_strict_subset:
  "reorderSection
     \<lparr>tree = [\<lparr>comment = [], data = [(''a'', Num 1), (''b'', Num 2)]\<rparr>],
      index = [(''a'', 0), (''b'', 0)], sopts = default_opts\<rparr> 0 [''a'']
   = (RetUndef,
      \<lparr>tree = [\<lparr>comment = [], data = [(''a'', Num 1)]\<rparr>],
       index = [(''a'', 0), (''b'', 0)], sopts = default_opts\<rparr>) \<and>
   reorderSection
     \<lparr>tree = [\<lparr>comment = [], data = [(''a'', Num 1), (''b'', Num 2)]\<rparr>],
      index = [(''a'', 0), (''b'', 0)], sopts = default_opts\<rparr> 0 [''b'', ''a'']
   = (RetUndef,
      \<lparr>tree = [\<lparr>comment = [], data = [(''b'', Num 2), (''a'', Num 1)]\<rparr>],
       index = [(''a'', 0), (''b'', 0)], sopts = default_opts\<rparr>) \<and>
   reorderSection
     \<lparr>tree = [\<lparr>comment = [], data = [(''a'', Num 1), (''b'', Num 2)]\<rparr>],
      index = [(''a'', 0), (''b'', 0)], sopts = default_opts\<rparr> 0 [''b'', ''a'', ''c'']
   = (RetErr ''invalid new order array'',
      \<lparr>tree = [\<lparr>comment = [], data = [(''a'', Num 1), (''b'', Num 2)]\<rparr>],
       index = [(''a'', 0), (''b'', 0)], sopts = default_opts\<rparr>)"
  by (simp add: reorderSection_def tree_at_def commonArrays_def keys_def obj_get_def)

text \<open>
  C1.  The two stores below satisfy the invariant of the index.  After \<open>addSectionKey\<close>
  for a key of section 0 the key is in two sections, and after \<open>reorderSection\<close> with a
  part of the keys the index has an entry for a key that is in no section: the invariant
  is lost in both.
\<close>

theorem index_invariant_lost:
  "index_ok
     \<lparr>tree = [\<lparr>comment = [], data = [(''a'', Num 1)]\<rparr>, \<lparr>comment = [], data = [(''b'', Num 2)]\<rparr>],
      index = [(''a'', 0), (''b'', 1)], sopts = default_opts\<rparr> \<and>
   \<not> index_ok (snd (addSectionKey
     \<lparr>tree = [\<lparr>comment = [], data = [(''a'', Num 1)]\<rparr>, \<lparr>comment = [], data = [(''b'', Num 2)]\<rparr>],
      index = [(''a'', 0), (''b'', 1)], sopts = default_opts\<rparr> 1 ''a'' (Num 9))) \<and>
   index_ok
     \<lparr>tree = [\<lparr>comment = [], data = [(''a'', Num 1), (''b'', Num 2)]\<rparr>],
      index = [(''a'', 0), (''b'', 0)], sopts = default_opts\<rparr> \<and>
   \<not> index_ok (snd (reorderSection
     \<lparr>tree = [\<lparr>comment = [], data = [(''a'', Num 1), (''b'', Num 2)]\<rparr>],
      index = [(''a'', 0), (''b'', 0)], sopts = default_opts\<rparr> 0 [''a'']))"
  by (simp add: index_ok_def keys_def upt_rec addSectionKey_def reorderSection_def tree_at_def
      commonArrays_def obj_get_def)

section \<open>Marked keys in the update mode\<close>

text \<open>
  C6.  The update mode of \<open>sync\<close> loops over all the keys of the object, not over the
  keys without the marker: a local key \<open>$a\<close> is overwritten from the object.  The merge
  mode, on the same input, leaves it alone.
\<close>

theorem sync_update_uses_marked_key:
  "sync \<lparr>tree = [\<lparr>comment = [], data = [(''$a'', Num 1)]\<rparr>], index = [(''$a'', 0)],
         sopts = default_opts\<rparr>
     (Obj [(''$a'', Num 2)]) \<lparr>update = True, merge = False, mirror = False\<rparr>
   = Inr (RetUndef,
          \<lparr>tree = [\<lparr>comment = [], data = [(''$a'', Num 2)]\<rparr>], index = [(''$a'', 0)],
           sopts = default_opts\<rparr>) \<and>
   sync \<lparr>tree = [\<lparr>comment = [], data = [(''$a'', Num 1)]\<rparr>], index = [(''$a'', 0)],
         sopts = default_opts\<rparr>
     (Obj [(''$a'', Num 2)]) \<lparr>update = False, merge = True, mirror = False\<rparr>
   = Inr (RetUndef,
          \<lparr>tree = [\<lparr>comment = [], data = [(''$a'', Num 1)]\<rparr>], index = [(''$a'', 0)],
           sopts = default_opts\<rparr>)"
  by (simp add: sync_def own_props_def keys_def tree_at_def obj_get_def rebuildIndex_def
      index_section_def not_marked_def)

section \<open>Sync in mirror mode\<close>

























section \<open>Writing a tree and reading it back\<close>






















































































































end
